theory Spec2Isabelle
  imports Main
begin

section \<open>Data model: cells, frames, long tables\<close>

text \<open>
  The three scripts (\<^verbatim>\<open>multi_file_converter.py\<close>, \<^verbatim>\<open>quarterly_files.py\<close>,
  \<^verbatim>\<open>wide_to_long.py\<close>) work on pandas data frames. A cell of a frame is a null
  (\<^verbatim>\<open>NaN\<close>, \<^verbatim>\<open>None\<close>, \<^verbatim>\<open>NaT\<close>), a text, or any other scalar (a number, a time stamp);
  the type \<open>'n\<close> of the other scalars is left open. Column labels are cells as well: the
  quarterly script takes them from the first data row.
\<close>

datatype 'n cell = Null | Str string | Val 'n

text \<open>
  The storage type of a column, as far as the scripts look at it: \<^verbatim>\<open>dtype == 'object'\<close>
  (a column that holds text or mixed values), the numeric types, and the time stamps.
\<close>

datatype dtype = object | numeric | datetime64

text \<open>
  A wide frame as \<^verbatim>\<open>pd.read_excel\<close> returns it: the column labels, the storage type of
  every column, the row labels (the index) and the rows, each row a list of cells.
\<close>

record 'n frame =
  columns :: "'n cell list"
  dtypes :: "dtype list"
  index :: "nat list"
  data :: "'n cell list list"


text \<open>
  A row of the long table: its row label and the three output columns
  \<^verbatim>\<open>Date, Stock, <value_column_name>\<close>.
\<close>

record 'n long_row =
  idx :: nat
  Date :: "'n cell"
  Stock :: "'n cell"
  Value :: "'n cell"

record 'n long_frame =
  lrows :: "'n long_row list"
  value_dtype :: dtype

datatype error =
    IndexError
  | ValueError
  | TypeError
  | FileNotFoundError
  | ReadError
  | OSError

section \<open>The unpivot: \<^verbatim>\<open>DataFrame.melt\<close>\<close>

text \<open>
  \<^verbatim>\<open>concat\<close> of the value columns gives the melted column its storage type: the columns'
  own type when they agree, \<^verbatim>\<open>object\<close> when they do not; a frame with no value column
  melts to an empty \<^verbatim>\<open>float64\<close> column.
\<close>

fun common_dtype :: "dtype list \<Rightarrow> dtype" where
  "common_dtype [] = numeric"
| "common_dtype (d # ds) = (if list_all (\<lambda>e. e = d) ds then d else object)"

text \<open>
  \<^verbatim>\<open>df.melt(id_vars=[date_col], value_vars=stock_cols, var_name='Stock',
  value_name=value_column_name)\<close> followed by \<^verbatim>\<open>rename(columns={date_col: 'Date'})\<close>, for
  \<^verbatim>\<open>date_col = columns[0]\<close> and \<^verbatim>\<open>stock_cols = columns[1:]\<close>: the value columns one after
  the other, each with all periods from top to bottom; new row labels from 0
  (\<^verbatim>\<open>ignore_index=True\<close>).
\<close>

definition melt_column :: "'n frame \<Rightarrow> nat \<Rightarrow> ('n cell \<times> 'n cell \<times> 'n cell) list" where
  "melt_column df j = map (\<lambda>r. (r ! 0, columns df ! j, r ! j)) (data df)"

definition melt_cells :: "'n frame \<Rightarrow> ('n cell \<times> 'n cell \<times> 'n cell) list" where
  "melt_cells df = concat (map (melt_column df) [1..<length (columns df)])"

definition number_rows :: "('n cell \<times> 'n cell \<times> 'n cell) list \<Rightarrow> 'n long_row list" where
  "number_rows ts =
     map (\<lambda>(i, (d, s, v)). \<lparr>idx = i, Date = d, Stock = s, Value = v\<rparr>)
       (zip [0..<length ts] ts)"

text \<open>
  pandas 2 raises \<^verbatim>\<open>ValueError\<close> when \<^verbatim>\<open>value_name\<close> is already a column label. The
  model is the melt of a frame whose labels are pairwise distinct, as \<^verbatim>\<open>read_excel\<close>
  makes them; an identifier label that occurs a second time makes pandas fail while it
  builds the identifier column.
\<close>

definition melt :: "'n frame \<Rightarrow> string \<Rightarrow> error + 'n long_frame" where
  "melt df vname =
     (if Str vname \<in> set (columns df) then Inl ValueError
      else if hd (columns df) \<in> set (tl (columns df)) then Inl ValueError
      else Inr \<lparr>lrows = number_rows (melt_cells df),
                 value_dtype = common_dtype (tl (dtypes df))\<rparr>)"


section \<open>The sentinel filter\<close>

text \<open>
  \<^verbatim>\<open>long_df.dropna(subset=[value_column_name])\<close>, then
  \<^verbatim>\<open>long_df[long_df[value_column_name] != '-']\<close> and
  \<^verbatim>\<open>long_df[long_df[value_column_name] != '']\<close>. A number or a time stamp never equals a
  text, so \<^verbatim>\<open>!=\<close> keeps it. The rows keep their labels and the column its storage type.
\<close>

definition dropna :: "'n long_frame \<Rightarrow> 'n long_frame" where
  "dropna t = t\<lparr>lrows := filter (\<lambda>r. Value r \<noteq> Null) (lrows t)\<rparr>"

definition keep_ne :: "string \<Rightarrow> 'n long_frame \<Rightarrow> 'n long_frame" where
  "keep_ne s t = t\<lparr>lrows := filter (\<lambda>r. Value r \<noteq> Str s) (lrows t)\<rparr>"

definition sentinel_filter :: "'n long_frame \<Rightarrow> 'n long_frame" where
  "sentinel_filter t = keep_ne '''' (keep_ne ''-'' (dropna t))"

text \<open>The three sentinels of the specification.\<close>

definition is_sentinel :: "'n cell \<Rightarrow> bool" where
  "is_sentinel v \<longleftrightarrow> v = Null \<or> v = Str ''-'' \<or> v = Str ''''"

text \<open>\<^verbatim>\<open>reset_index(drop=True)\<close>: the rows are relabelled from 0.\<close>

definition reset_index :: "'n long_frame \<Rightarrow> 'n long_frame" where
  "reset_index t =
     t\<lparr>lrows := map (\<lambda>(i, r). r\<lparr>idx := i\<rparr>) (zip [0..<length (lrows t)] (lrows t))\<rparr>"

section \<open>Numeric coercion\<close>

text \<open>
  What the scripts take from pandas and the operating system: \<^verbatim>\<open>pd.to_numeric\<close> on one
  text (\<open>None\<close> where \<^verbatim>\<open>errors='coerce'\<close> gives \<^verbatim>\<open>NaN\<close>), \<^verbatim>\<open>str\<close> of a scalar that is not
  a text, whether \<^verbatim>\<open>Series.min()\<close> and \<^verbatim>\<open>Series.max()\<close> can order the cells of an
  \<^verbatim>\<open>object\<close> column (they raise \<^verbatim>\<open>TypeError\<close> on a text beside a number), and whether a
  file can be written.
\<close>

record 'n env =
  to_numeric :: "string \<Rightarrow> 'n option"
  py_str :: "'n \<Rightarrow> string"
  orderable :: "'n cell list \<Rightarrow> bool"
  writable :: "string \<Rightarrow> bool"

text \<open>\<^verbatim>\<open>.astype(str).str.replace(',', '')\<close> on one cell.\<close>

definition astype_str :: "'n env \<Rightarrow> 'n cell \<Rightarrow> string" where
  "astype_str e c = (case c of Str s \<Rightarrow> s | Val v \<Rightarrow> py_str e v | Null \<Rightarrow> ''nan'')"

definition str_replace_comma :: "string \<Rightarrow> string" where
  "str_replace_comma s = filter (\<lambda>c. c \<noteq> CHR '','') s"

definition clean_text :: "'n env \<Rightarrow> 'n cell \<Rightarrow> string" where
  "clean_text e c = str_replace_comma (astype_str e c)"

text \<open>\<^verbatim>\<open>pd.to_numeric(..., errors='coerce')\<close> on one cell of the cleaned column.\<close>

definition numeric_value :: "'n env \<Rightarrow> string \<Rightarrow> 'n cell" where
  "numeric_value e s = (case to_numeric e s of Some v \<Rightarrow> Val v | None \<Rightarrow> Null)"

subsection \<open>The threshold \<^verbatim>\<open>notna().sum() > len(numeric_values) * 0.8\<close>\<close>

text \<open>
  \<^verbatim>\<open>len(numeric_values) * 0.8\<close> is a product of IEEE doubles. The double \<^verbatim>\<open>0.8\<close> is
  \<open>7205759403792794 / 2 ^ 53\<close>; the product is the exact product rounded to 53
  significant bits, ties to even. Doubles are kept here as naturals in units of
  \<open>2 ^ -53\<close>; the row count is below \<open>2 ^ 53\<close>, so its conversion to a double is exact.
\<close>

definition double_0_8 :: nat where
  "double_0_8 = 7205759403792794"

fun bit_length :: "nat \<Rightarrow> nat" where
  "bit_length n = (if n = 0 then 0 else Suc (bit_length (n div 2)))"

declare bit_length.simps [simp del]

definition round_half_even :: "nat \<Rightarrow> nat \<Rightarrow> nat" where
  "round_half_even m s =
     (let q = m div 2 ^ s; r = m mod 2 ^ s
      in if 2 * r > 2 ^ s \<or> (2 * r = 2 ^ s \<and> odd q) then (q + 1) * 2 ^ s else q * 2 ^ s)"

definition times_0_8 :: "nat \<Rightarrow> nat" where
  "times_0_8 n =
     (let m = n * double_0_8; b = bit_length m
      in if b \<le> 53 then m else round_half_even m (b - 53))"

definition above_threshold :: "nat \<Rightarrow> nat \<Rightarrow> bool" where
  "above_threshold parsed n \<longleftrightarrow> parsed * 2 ^ 53 > times_0_8 n"

subsection \<open>The gated coercion of the general pipeline\<close>

text \<open>
  Lines 51 to 59 of \<^verbatim>\<open>convert_stock_file_to_long\<close>. The column is first replaced by its
  cleaned text; \<^verbatim>\<open>numeric_values\<close> is the parse of that text; when enough values parse,
  the column becomes \<^verbatim>\<open>numeric_values\<close> and the rows that are now null are dropped.
\<close>

definition set_value :: "'n long_row \<Rightarrow> 'n cell \<Rightarrow> 'n long_row" where
  "set_value r v = r\<lparr>Value := v\<rparr>"

definition clean_column :: "'n env \<Rightarrow> 'n long_frame \<Rightarrow> 'n long_frame" where
  "clean_column e t =
     t\<lparr>lrows := map (\<lambda>r. set_value r (Str (clean_text e (Value r)))) (lrows t)\<rparr>"

definition numeric_values :: "'n env \<Rightarrow> 'n long_frame \<Rightarrow> 'n cell list" where
  "numeric_values e t = map (\<lambda>r. numeric_value e (astype_str e (Value r))) (lrows t)"

definition assign_values :: "'n long_frame \<Rightarrow> 'n cell list \<Rightarrow> 'n long_frame" where
  "assign_values t vs =
     \<lparr>lrows = map (\<lambda>(r, v). set_value r v) (zip (lrows t) vs), value_dtype = numeric\<rparr>"

definition notna_sum :: "'n cell list \<Rightarrow> nat" where
  "notna_sum vs = length (filter (\<lambda>v. v \<noteq> Null) vs)"

definition coerce_gated :: "'n env \<Rightarrow> 'n long_frame \<Rightarrow> 'n long_frame" where
  "coerce_gated e t =
     (if value_dtype t = object then
        (let t1 = clean_column e t;
             nv = numeric_values e t1
         in if above_threshold (notna_sum nv) (length nv)
            then dropna (assign_values t1 nv)
            else t1)
      else t)"

subsection \<open>The unconditional coercion of the book-value fix\<close>

text \<open>Lines 86 to 88 of \<^verbatim>\<open>fix_quarterly_data_files\<close>: no storage-type test, no threshold.\<close>

definition coerce_always :: "'n env \<Rightarrow> 'n long_frame \<Rightarrow> 'n long_frame" where
  "coerce_always e t =
     (let t1 = clean_column e t
      in dropna (assign_values t1 (numeric_values e t1)))"

section \<open>Files and file names\<close>

text \<open>
  The file system maps a path to what is stored there: a workbook that \<^verbatim>\<open>read_excel\<close>
  loads, a CSV file written by \<^verbatim>\<open>to_csv(..., index=False)\<close> (the name of its value column
  and its rows), or a file \<^verbatim>\<open>read_excel\<close> cannot read.
\<close>

datatype 'n stored =
    Workbook "'n frame"
  | Csv string "('n cell \<times> 'n cell \<times> 'n cell) list"
  | Damaged

type_synonym 'n fs = "string \<Rightarrow> 'n stored option"

definition path_exists :: "'n fs \<Rightarrow> string \<Rightarrow> bool" where
  "path_exists fs p \<longleftrightarrow> fs p \<noteq> None"

definition read_excel :: "'n fs \<Rightarrow> string \<Rightarrow> error + 'n frame" where
  "read_excel fs p =
     (case fs p of
        None \<Rightarrow> Inl FileNotFoundError
      | Some (Workbook df) \<Rightarrow> Inr df
      | Some _ \<Rightarrow> Inl ReadError)"

definition csv_rows :: "'n long_frame \<Rightarrow> ('n cell \<times> 'n cell \<times> 'n cell) list" where
  "csv_rows t = map (\<lambda>r. (Date r, Stock r, Value r)) (lrows t)"

definition to_csv :: "'n env \<Rightarrow> 'n fs \<Rightarrow> string \<Rightarrow> string \<Rightarrow> 'n long_frame \<Rightarrow> error + 'n fs" where
  "to_csv e fs name vname t =
     (if writable e name then Inr (fs(name \<mapsto> Csv vname (csv_rows t))) else Inl OSError)"

text \<open>
  \<^verbatim>\<open>os.path.basename\<close> and the root of \<^verbatim>\<open>os.path.splitext\<close> (POSIX): the extension starts
  at the last dot of the last path component, unless only dots precede it there.
\<close>

definition basename :: "string \<Rightarrow> string" where
  "basename p = rev (takeWhile (\<lambda>c. c \<noteq> CHR ''/'') (rev p))"

definition rfind :: "char \<Rightarrow> string \<Rightarrow> int" where
  "rfind c p =
     (if c \<in> set p then int (length p) - 1 - int (length (takeWhile (\<lambda>x. x \<noteq> c) (rev p)))
      else - 1)"

definition splitext_root :: "string \<Rightarrow> string" where
  "splitext_root p =
     (let sepIndex = rfind (CHR ''/'') p; dotIndex = rfind (CHR ''.'') p
      in if dotIndex > sepIndex \<and>
            list_ex (\<lambda>c. c \<noteq> CHR ''.'') (drop (nat (sepIndex + 1)) (take (nat dotIndex) p))
         then take (nat dotIndex) p else p)"

definition csv_name :: "string \<Rightarrow> string \<Rightarrow> string" where
  "csv_name file_path output_suffix =
     splitext_root (basename file_path) @ output_suffix @ ''_long_format.csv''"

section \<open>The general pipeline: \<^verbatim>\<open>convert_stock_file_to_long\<close>\<close>

text \<open>
  \<^verbatim>\<open>Series.min()\<close> and \<^verbatim>\<open>Series.max()\<close> in the progress lines (lines 27 and 84) raise on
  an \<^verbatim>\<open>object\<close> column whose cells cannot be ordered.
\<close>

definition min_max_ok :: "'n env \<Rightarrow> dtype \<Rightarrow> 'n cell list \<Rightarrow> bool" where
  "min_max_ok e dt cs \<longleftrightarrow> dt \<noteq> object \<or> cs = [] \<or> orderable e cs"

text \<open>
  What one conversion returns and prints: the long frame and the name of the CSV file
  (returned), and the two counts of the lines \<^verbatim>\<open>Removed ... empty/invalid rows\<close> and
  \<^verbatim>\<open>Conversion complete! ... data points created\<close>.
\<close>

record 'n conversion =
  long_df :: "'n long_frame"
  csv_filename :: string
  removed_rows :: int
  final_rows :: nat

text \<open>
  The function either raises or returns; the file system is returned in both cases, since
  the CSV file is written (line 76) before the last statements that can raise.
\<close>

definition convert_stock_file_to_long ::
  "'n env \<Rightarrow> 'n fs \<Rightarrow> string \<Rightarrow> string \<Rightarrow> string \<Rightarrow> (error + 'n conversion) \<times> 'n fs" where
  "convert_stock_file_to_long e fs file_path output_suffix vname =
     (case read_excel fs file_path of
        Inl err \<Rightarrow> (Inl err, fs)
      | Inr df \<Rightarrow>
          if columns df = [] then (Inl IndexError, fs)
          else if \<not> min_max_ok e (hd (dtypes df)) (map (\<lambda>r. r ! 0) (data df))
          then (Inl TypeError, fs)
          else
            (case melt df vname of
               Inl err \<Rightarrow> (Inl err, fs)
             | Inr melted \<Rightarrow>
                 let initial_rows = length (lrows melted);
                     cleaned = reset_index (coerce_gated e (sentinel_filter melted));
                     n_final = length (lrows cleaned);
                     name = csv_name file_path output_suffix
                 in (case to_csv e fs name vname cleaned of
                       Inl err \<Rightarrow> (Inl err, fs)
                     | Inr fs' \<Rightarrow>
                         if \<not> min_max_ok e (hd (dtypes df)) (map Date (lrows cleaned))
                         then (Inl TypeError, fs')
                         else (Inr \<lparr>long_df = cleaned, csv_filename = name,
                                     removed_rows = int initial_rows - int n_final,
                                     final_rows = n_final\<rparr>, fs'))))"

section \<open>The single-file script: \<^verbatim>\<open>convert_wide_to_long_csv\<close>\<close>

text \<open>The same steps with the value column \<^verbatim>\<open>Price\<close>, no numeric coercion and a fixed name.\<close>

definition convert_wide_to_long_csv ::
  "'n env \<Rightarrow> 'n fs \<Rightarrow> string \<Rightarrow> (error + 'n conversion) \<times> 'n fs" where
  "convert_wide_to_long_csv e fs file_path =
     (case read_excel fs file_path of
        Inl err \<Rightarrow> (Inl err, fs)
      | Inr df \<Rightarrow>
          if columns df = [] then (Inl IndexError, fs)
          else if \<not> min_max_ok e (hd (dtypes df)) (map (\<lambda>r. r ! 0) (data df))
          then (Inl TypeError, fs)
          else
            (case melt df ''Price'' of
               Inl err \<Rightarrow> (Inl err, fs)
             | Inr melted \<Rightarrow>
                 let initial_rows = length (lrows melted);
                     cleaned = reset_index (sentinel_filter melted);
                     n_final = length (lrows cleaned);
                     name = ''taiwan_stocks_long_format.csv''
                 in (case to_csv e fs name ''Price'' cleaned of
                       Inl err \<Rightarrow> (Inl err, fs)
                     | Inr fs' \<Rightarrow>
                         if \<not> min_max_ok e (hd (dtypes df)) (map Date (lrows cleaned))
                         then (Inl TypeError, fs')
                         else (Inr \<lparr>long_df = cleaned, csv_filename = name,
                                     removed_rows = int initial_rows - int n_final,
                                     final_rows = n_final\<rparr>, fs'))))"

section \<open>The quarterly fix: \<^verbatim>\<open>fix_quarterly_data_files\<close>\<close>

text \<open>
  Lines 21 to 25 and 62 to 64: \<^verbatim>\<open>actual_columns = df.iloc[0].values\<close> (an \<^verbatim>\<open>IndexError\<close> on a
  frame with no row), \<^verbatim>\<open>data_rows = df.iloc[1:].reset_index(drop=True)\<close>, and
  \<^verbatim>\<open>data_rows.columns = actual_columns\<close> (a \<^verbatim>\<open>ValueError\<close> when the lengths differ). The
  columns keep the storage types they were loaded with.
\<close>

definition fix_header :: "'n frame \<Rightarrow> error + 'n frame" where
  "fix_header df =
     (case data df of
        [] \<Rightarrow> Inl IndexError
      | actual_columns # rest \<Rightarrow>
          if length actual_columns \<noteq> length (columns df) then Inl ValueError
          else Inr (df\<lparr>columns := actual_columns, index := [0..<length rest], data := rest\<rparr>))"

text \<open>
  Lines 30 to 44: \<^verbatim>\<open>date_col = actual_columns[0]\<close> (an \<^verbatim>\<open>IndexError\<close> on an empty
  header), the melt and the sentinel filter. The announcement dates are written as they
  are.
\<close>

definition announcement_long :: "'n frame \<Rightarrow> error + 'n long_frame" where
  "announcement_long df =
     (case fix_header df of
        Inl err \<Rightarrow> Inl err
      | Inr data_rows \<Rightarrow>
          if columns data_rows = [] then Inl IndexError
          else
            (case melt data_rows ''AnnouncementDate'' of
               Inl err \<Rightarrow> Inl err
             | Inr melted \<Rightarrow> Inr (sentinel_filter melted)))"

text \<open>Lines 69 to 88: the same, then the unconditional coercion of the book values.\<close>

definition book_value_long :: "'n env \<Rightarrow> 'n frame \<Rightarrow> error + 'n long_frame" where
  "book_value_long e df =
     (case fix_header df of
        Inl err \<Rightarrow> Inl err
      | Inr data_rows \<Rightarrow>
          if columns data_rows = [] then Inl IndexError
          else
            (case melt data_rows ''BookValue'' of
               Inl err \<Rightarrow> Inl err
             | Inr melted \<Rightarrow> Inr (coerce_always e (sentinel_filter melted))))"

text \<open>
  Each half of the function sits in \<^verbatim>\<open>try ... except Exception\<close>: an error is printed and
  the half writes nothing.
\<close>

definition fix_announcement_dates :: "'n env \<Rightarrow> 'n fs \<Rightarrow> 'n fs" where
  "fix_announcement_dates e fs =
     (case read_excel fs ''announcemnet date.xlsx'' of
        Inl err \<Rightarrow> fs
      | Inr df \<Rightarrow>
          (case announcement_long df of
             Inl err \<Rightarrow> fs
           | Inr t \<Rightarrow>
               (case to_csv e fs ''announcement_dates_fixed.csv'' ''AnnouncementDate'' t of
                  Inl err \<Rightarrow> fs
                | Inr fs' \<Rightarrow> fs')))"

definition fix_book_values :: "'n env \<Rightarrow> 'n fs \<Rightarrow> 'n fs" where
  "fix_book_values e fs =
     (case read_excel fs ''book value.xlsx'' of
        Inl err \<Rightarrow> fs
      | Inr df \<Rightarrow>
          (case book_value_long e df of
             Inl err \<Rightarrow> fs
           | Inr t \<Rightarrow>
               (case to_csv e fs ''book_values_fixed.csv'' ''BookValue'' t of
                  Inl err \<Rightarrow> fs
                | Inr fs' \<Rightarrow> fs')))"

definition fix_quarterly_data_files :: "'n env \<Rightarrow> 'n fs \<Rightarrow> 'n fs" where
  "fix_quarterly_data_files e fs = fix_book_values e (fix_announcement_dates e fs)"

section \<open>The batch driver: \<^verbatim>\<open>convert_all_stock_files\<close>\<close>

record config =
  file_name :: string
  suffix :: string
  value_name :: string
  description :: string

definition files_config :: "config list" where
  "files_config =
     [\<lparr>file_name = ''stock price.xlsx'', suffix = ''_prices'', value_name = ''Price'',
        description = ''Stock Prices''\<rparr>,
      \<lparr>file_name = ''tv.xlsx'', suffix = ''_volume'', value_name = ''Volume'',
        description = ''Trading Volume''\<rparr>,
      \<lparr>file_name = ''mkt cap.xlsx'', suffix = ''_market_cap'', value_name = ''MarketCap'',
        description = ''Market Capitalization''\<rparr>,
      \<lparr>file_name = ''book value.xlsx'', suffix = ''_book_value'', value_name = ''BookValue'',
        description = ''Book Value (Quarterly)''\<rparr>,
      \<lparr>file_name = ''announcemnet date.xlsx'', suffix = ''_announcement'',
        value_name = ''AnnouncementDate'', description = ''Announcement Dates''\<rparr>]"

text \<open>
  One entry of \<^verbatim>\<open>results\<close>. The key \<^verbatim>\<open>"error"\<close> is present only in the entry the
  \<^verbatim>\<open>except\<close> branch appends.
\<close>

record conv_result =
  original_file :: string
  output_file :: "string option"
  result_description :: string
  rows :: nat
  success :: bool
  error :: "error option"

text \<open>The body of the loop, lines 153 to 191.\<close>

definition process_config :: "'n env \<Rightarrow> 'n fs \<Rightarrow> config \<Rightarrow> conv_result \<times> 'n fs" where
  "process_config e fs c =
     (if path_exists fs (file_name c) then
        (case convert_stock_file_to_long e fs (file_name c) (suffix c) (value_name c) of
           (Inr cv, fs') \<Rightarrow>
             (\<lparr>original_file = file_name c, output_file = Some (csv_filename cv),
               result_description = description c, rows = length (lrows (long_df cv)),
               success = True, error = None\<rparr>, fs')
         | (Inl err, fs') \<Rightarrow>
             (\<lparr>original_file = file_name c, output_file = None,
               result_description = description c, rows = 0,
               success = False, error = Some err\<rparr>, fs'))
      else
        (\<lparr>original_file = file_name c, output_file = None,
          result_description = description c, rows = 0,
          success = False, error = None\<rparr>, fs))"

fun process_all :: "'n env \<Rightarrow> 'n fs \<Rightarrow> config list \<Rightarrow> conv_result list \<times> 'n fs" where
  "process_all e fs [] = ([], fs)"
| "process_all e fs (c # cs) =
     (let (r, fs') = process_config e fs c;
          (rs, fs'') = process_all e fs' cs
      in (r # rs, fs''))"

text \<open>
  The summary report, lines 198 to 215: the files converted, out of
  \<^verbatim>\<open>len(files_config)\<close>, and the data points of the converted files.
\<close>

record summary =
  successful :: nat
  total_files :: nat
  total_rows :: nat

definition summarize :: "config list \<Rightarrow> conv_result list \<Rightarrow> summary" where
  "summarize cs results =
     \<lparr>successful = length (filter success results),
      total_files = length cs,
      total_rows = sum_list (map rows (filter success results))\<rparr>"

definition convert_all :: "'n env \<Rightarrow> 'n fs \<Rightarrow> config list \<Rightarrow> (conv_result list \<times> summary) \<times> 'n fs" where
  "convert_all e fs cs =
     (let (results, fs') = process_all e fs cs
      in ((results, summarize cs results), fs'))"

definition convert_all_stock_files :: "'n env \<Rightarrow> 'n fs \<Rightarrow> (conv_result list \<times> summary) \<times> 'n fs" where
  "convert_all_stock_files e fs = convert_all e fs files_config"

text \<open>
  The three entries the loop can append, by name: for a file that does not exist, for a
  conversion that raised, and for a conversion that returned.
\<close>

definition missing_entry :: "config \<Rightarrow> conv_result" where
  "missing_entry c =
     \<lparr>original_file = file_name c, output_file = None, result_description = description c,
      rows = 0, success = False, error = None\<rparr>"

definition failed_entry :: "config \<Rightarrow> error \<Rightarrow> conv_result" where
  "failed_entry c err =
     \<lparr>original_file = file_name c, output_file = None, result_description = description c,
      rows = 0, success = False, error = Some err\<rparr>"

definition converted_entry :: "config \<Rightarrow> 'n conversion \<Rightarrow> conv_result" where
  "converted_entry c cv =
     \<lparr>original_file = file_name c, output_file = Some (csv_filename cv),
      result_description = description c, rows = length (lrows (long_df cv)),
      success = True, error = None\<rparr>"

section \<open>The coercion in the words of the specification\<close>

text \<open>
  A row parses when \<^verbatim>\<open>to_numeric\<close> reads its comma-stripped text as a number; the
  committed row carries that number, the abandoned row the comma-stripped text.
\<close>

definition parseable :: "'n env \<Rightarrow> 'n long_row \<Rightarrow> bool" where
  "parseable e r \<longleftrightarrow> to_numeric e (clean_text e (Value r)) \<noteq> None"

definition numeric_row :: "'n env \<Rightarrow> 'n long_row \<Rightarrow> 'n long_row" where
  "numeric_row e r = set_value r (numeric_value e (clean_text e (Value r)))"

definition text_row :: "'n env \<Rightarrow> 'n long_row \<Rightarrow> 'n long_row" where
  "text_row e r = set_value r (Str (clean_text e (Value r)))"

section \<open>An environment for the concrete runs\<close>

text \<open>
  The concrete runs below need one environment. In it the scalars are the naturals,
  \<^verbatim>\<open>to_numeric\<close> reads the unsigned decimal numerals and nothing else, \<^verbatim>\<open>str\<close> writes them,
  a column can be ordered when it holds texts only or no text at all, and every file
  can be written.
\<close>

definition digit_value :: "char \<Rightarrow> nat option" where
  "digit_value c =
     map_of [(CHR ''0'', 0), (CHR ''1'', 1), (CHR ''2'', 2), (CHR ''3'', 3), (CHR ''4'', 4),
             (CHR ''5'', 5), (CHR ''6'', 6), (CHR ''7'', 7), (CHR ''8'', 8), (CHR ''9'', 9)] c"

fun decimal_acc :: "nat \<Rightarrow> string \<Rightarrow> nat option" where
  "decimal_acc a [] = Some a"
| "decimal_acc a (c # cs) =
     (case digit_value c of None \<Rightarrow> None | Some d \<Rightarrow> decimal_acc (10 * a + d) cs)"

definition decimal_numeral :: "string \<Rightarrow> nat option" where
  "decimal_numeral s = (if s = [] then None else decimal_acc 0 s)"

fun decimal_digits :: "nat \<Rightarrow> string" where
  "decimal_digits n =
     (if n < 10 then [''0123456789'' ! n]
      else decimal_digits (n div 10) @ [''0123456789'' ! (n mod 10)])"

declare decimal_digits.simps [simp del]

definition is_text :: "'n cell \<Rightarrow> bool" where
  "is_text c = (case c of Str s \<Rightarrow> True | _ \<Rightarrow> False)"

definition decimal_env :: "nat env" where
  "decimal_env =
     \<lparr>to_numeric = decimal_numeral,
      py_str = decimal_digits,
      orderable = (\<lambda>cs. list_all is_text cs \<or> list_all (\<lambda>c. \<not> is_text c) cs),
      writable = (\<lambda>p. True)\<rparr>"

section \<open>Concrete tables for the scenarios\<close>

text \<open>
  The scenario of the specification: two periods, two stocks, the values
  \<^verbatim>\<open>[[100, "-"], [200, 300]]\<close>. The second stock column holds a text, so it is loaded as
  an \<^verbatim>\<open>object\<close> column.
\<close>

definition scenario_table :: "nat frame" where
  "scenario_table =
     \<lparr>columns = [Str ''Date'', Str ''S1'', Str ''S2''],
      dtypes = [object, numeric, object],
      index = [0, 1],
      data = [[Str ''P1'', Val 100, Str ''-''], [Str ''P2'', Val 200, Val 300]]\<rparr>"

text \<open>
  A long table of one period and one stock with the given texts as values, stored as an
  \<^verbatim>\<open>object\<close> column.
\<close>

definition text_column :: "string list \<Rightarrow> nat long_frame" where
  "text_column vs =
     \<lparr>lrows = number_rows (map (\<lambda>v. (Str ''2020Q1'', Str ''1101 X'', Str v)) vs),
      value_dtype = object\<rparr>"

text \<open>
  A quarterly workbook as the fix expects it: the labels \<^verbatim>\<open>read_excel\<close> took from the
  first line, and the true header as the first data row. The dates are stored as text.
\<close>

definition quarterly_table :: "nat frame" where
  "quarterly_table =
     \<lparr>columns = [Str ''Unnamed: 0'', Str ''Unnamed: 1'', Str ''Unnamed: 2''],
      dtypes = [object, object, object],
      index = [0, 1, 2],
      data = [[Str ''Period'', Str ''1101 X'', Str ''1102 Y''],
              [Str ''2020Q1'', Str ''2020/05/15'', Str ''-''],
              [Str ''2020Q2'', Str ''2020/08/14'', Str ''2020/08/10'']]\<rparr>"

definition quarterly_fs :: "nat fs" where
  "quarterly_fs = [''announcemnet date.xlsx'' \<mapsto> Workbook quarterly_table]"

text \<open>
  A workbook of one stock and six days. Its values are stored as text; five of the six
  are numbers, none is a sentinel. \<open>volume_long\<close> is the long table the general pipeline
  makes of it.
\<close>

definition volume_table :: "nat frame" where
  "volume_table =
     \<lparr>columns = [Str ''Date'', Str ''1101 X''],
      dtypes = [object, object],
      index = [0, 1, 2, 3, 4, 5],
      data = [[Str ''2020-01-02'', Str ''1,000''],
              [Str ''2020-01-03'', Str ''2''],
              [Str ''2020-01-06'', Str ''3''],
              [Str ''2020-01-07'', Str ''4''],
              [Str ''2020-01-08'', Str ''5''],
              [Str ''2020-01-09'', Str ''halted'']]\<rparr>"

definition volume_long :: "nat long_frame" where
  "volume_long =
     \<lparr>lrows =
        [\<lparr>idx = 0, Date = Str ''2020-01-02'', Stock = Str ''1101 X'', Value = Val 1000\<rparr>,
         \<lparr>idx = 1, Date = Str ''2020-01-03'', Stock = Str ''1101 X'', Value = Val 2\<rparr>,
         \<lparr>idx = 2, Date = Str ''2020-01-06'', Stock = Str ''1101 X'', Value = Val 3\<rparr>,
         \<lparr>idx = 3, Date = Str ''2020-01-07'', Stock = Str ''1101 X'', Value = Val 4\<rparr>,
         \<lparr>idx = 4, Date = Str ''2020-01-08'', Stock = Str ''1101 X'', Value = Val 5\<rparr>],
      value_dtype = numeric\<rparr>"

definition volume_fs :: "nat fs" where
  "volume_fs = [''tv.xlsx'' \<mapsto> Workbook volume_table]"

text \<open>
  A directory for the batch run: three of the five configured workbooks are there, the
  book values and the announcement dates are missing.
\<close>

definition batch_fs :: "nat fs" where
  "batch_fs =
     [''stock price.xlsx'' \<mapsto> Workbook volume_table,
      ''tv.xlsx'' \<mapsto> Workbook volume_table,
      ''mkt cap.xlsx'' \<mapsto> Workbook volume_table]"

section \<open>Properties of the sentinel filter\<close>

lemma lrows_sentinel_filter:
  "lrows (sentinel_filter t) = filter (\<lambda>r. \<not> is_sentinel (Value r)) (lrows t)"
  by (simp add: sentinel_filter_def keep_ne_def dropna_def is_sentinel_def
      conj_commute conj_left_commute)

lemma value_dtype_sentinel_filter: "value_dtype (sentinel_filter t) = value_dtype t"
  by (simp add: sentinel_filter_def keep_ne_def dropna_def)

lemma sentinel_filter_eq:
  "sentinel_filter t = t\<lparr>lrows := filter (\<lambda>r. \<not> is_sentinel (Value r)) (lrows t)\<rparr>"
  by (simp add: sentinel_filter_def keep_ne_def dropna_def is_sentinel_def
      conj_commute conj_left_commute)

lemma melt_scenario:
  "melt scenario_table ''Value'' =
     Inr \<lparr>lrows =
            [\<lparr>idx = 0, Date = Str ''P1'', Stock = Str ''S1'', Value = Val 100\<rparr>,
             \<lparr>idx = 1, Date = Str ''P2'', Stock = Str ''S1'', Value = Val 200\<rparr>,
             \<lparr>idx = 2, Date = Str ''P1'', Stock = Str ''S2'', Value = Str ''-''\<rparr>,
             \<lparr>idx = 3, Date = Str ''P2'', Stock = Str ''S2'', Value = Val 300\<rparr>],
          value_dtype = object\<rparr>"
  by (simp add: scenario_table_def melt_def melt_cells_def melt_column_def number_rows_def
      upt_rec)

text \<open>
  C7. The sentinel filter removes exactly the records whose value is null, the text
  \<^verbatim>\<open>-\<close> or the empty text: the rows it keeps are the others, in their order and
  unchanged, and the column keeps its storage type. On the scenario table the unpivot
  gives four records and the filter leaves the three records \<open>(P1, S1, 100)\<close>,
  \<open>(P2, S1, 200)\<close>, \<open>(P2, S2, 300)\<close>.
\<close>

theorem sentinel_filter_exact:
  "lrows (sentinel_filter t) = filter (\<lambda>r. \<not> is_sentinel (Value r)) (lrows t) \<and>
   value_dtype (sentinel_filter t) = value_dtype t \<and>
   map_sum id (length \<circ> lrows) (melt scenario_table ''Value'') = Inr 4 \<and>
   map_sum id (csv_rows \<circ> sentinel_filter) (melt scenario_table ''Value'') =
     Inr [(Str ''P1'', Str ''S1'', Val 100), (Str ''P2'', Str ''S1'', Val 200),
          (Str ''P2'', Str ''S2'', Val 300)]"
  by (simp add: lrows_sentinel_filter value_dtype_sentinel_filter melt_scenario csv_rows_def
      is_sentinel_def)

text \<open>
  C9. The sentinel filter is idempotent: filtering a table that has been filtered gives
  the same table.
\<close>

theorem sentinel_filter_idempotent:
  "sentinel_filter (sentinel_filter t) = sentinel_filter t"
  by (simp add: sentinel_filter_eq)

section \<open>The threshold in exact arithmetic\<close>

text \<open>
  The rounded product \<^verbatim>\<open>len(numeric_values) * 0.8\<close> decides the comparison with a count
  as four fifths of the length does, for every column of fewer than \<open>2 ^ 50\<close> rows.
\<close>

lemma bit_length_upper: "n < 2 ^ bit_length n"
proof (induction n rule: bit_length.induct)
  case (1 n)
  show ?case
  proof (cases "n = 0")
    case True
    then show ?thesis by (simp add: bit_length.simps)
  next
    case False
    with 1 have "n div 2 < 2 ^ bit_length (n div 2)" by simp
    then have "n < 2 * 2 ^ bit_length (n div 2)" by linarith
    with False show ?thesis by (subst bit_length.simps) simp
  qed
qed

lemma bit_length_lower: "0 < n \<Longrightarrow> 2 ^ (bit_length n - 1) \<le> n"
proof (induction n rule: bit_length.induct)
  case (1 n)
  then have n: "n \<noteq> 0" by simp
  show ?case
  proof (cases "n div 2 = 0")
    case True
    then have "bit_length (n div 2) = 0" by (simp add: bit_length.simps)
    with n have "bit_length n = 1" by (subst bit_length.simps) simp
    with 1 show ?thesis by simp
  next
    case False
    with 1 n have ih: "2 ^ (bit_length (n div 2) - 1) \<le> n div 2" by simp
    from False have "bit_length (n div 2) \<noteq> 0" by (subst bit_length.simps) simp
    then obtain k where k: "bit_length (n div 2) = Suc k" by (cases "bit_length (n div 2)") auto
    from n have "bit_length n = Suc (Suc k)" by (subst bit_length.simps) (simp add: k)
    moreover from ih k have "2 * 2 ^ k \<le> n" by simp
    ultimately show ?thesis by simp
  qed
qed

lemma round_half_even_lower: "(m div 2 ^ s) * 2 ^ s \<le> round_half_even m s"
  by (simp add: round_half_even_def Let_def)


lemma round_half_even_upper: "2 * round_half_even m s \<le> 2 * m + 2 ^ s"
proof -
  define q where "q = m div 2 ^ s"
  define r where "r = m mod 2 ^ s"
  define p :: nat where "p = 2 ^ s"
  have m: "q * p + r = m"
    using div_mult_mod_eq[of m "2 ^ s"] by (simp add: q_def r_def p_def)
  have rhe: "round_half_even m s =
      (if 2 * r > p \<or> (2 * r = p \<and> odd q) then (q + 1) * p else q * p)"
    by (simp add: round_half_even_def Let_def q_def r_def p_def)
  have "2 * round_half_even m s \<le> 2 * (q * p + r) + p"
    unfolding rhe by (auto simp: algebra_simps)
  then have "2 * round_half_even m s \<le> 2 * m + p" by (simp only: m)
  then show ?thesis by (simp only: p_def)
qed

lemma bit_length_0: "bit_length 0 = 0"
  by (simp add: bit_length.simps)

lemma threshold_small:
  fixes c n :: nat
  assumes "n < 1125899906842624"
  shows "n * 7205759403792794 < c * 9007199254740992 \<longleftrightarrow> 4 * n < 5 * c"
  using assms by linarith

lemma pow53: "(2::nat) ^ 53 = 9007199254740992"
  by simp

lemma pow50: "(2::nat) ^ 50 = 1125899906842624"
  by simp

lemma above_threshold_exact:
  assumes n: "n < 2 ^ 50"
  shows "above_threshold c n \<longleftrightarrow> 4 * n < 5 * c"
proof -
  define m where "m = n * double_0_8"
  define b where "b = bit_length m"
  have nv: "n < 1125899906842624" using n by simp
  have mv: "m = n * 7205759403792794" by (simp add: m_def double_0_8_def)
  have ab: "above_threshold c n \<longleftrightarrow> times_0_8 n < c * 9007199254740992"
    by (simp add: above_threshold_def)
  show ?thesis
  proof (cases "b \<le> 53")
    case True
    then have "times_0_8 n = m" by (simp add: times_0_8_def Let_def m_def b_def)
    then show ?thesis using threshold_small[OF nv, of c] by (simp only: ab mv)
  next
    case False
    define s where "s = b - 53"
    define T where "T = round_half_even m s"
    define h :: nat where "h = 2 ^ (s - 1)"
    define p :: nat where "p = 2 ^ s"
    have T: "times_0_8 n = T"
      using False by (simp add: times_0_8_def Let_def m_def b_def T_def s_def)
    have mpos: "0 < m" using False by (cases "m = 0") (simp_all add: b_def bit_length_0)
    have "2 ^ (b - 1) \<le> m" using bit_length_lower[OF mpos] by (simp add: b_def)
    moreover have "b - 1 = (s - 1) + 53" using False by (simp add: s_def)
    ultimately have "2 ^ ((s - 1) + 53) \<le> m" by simp
    then have "h * 2 ^ 53 \<le> m" by (simp only: power_add h_def)
    then have B: "h * 9007199254740992 \<le> m" by (simp only: pow53)
    have spos: "0 < s" using False by (simp add: s_def)
    then have ph: "p = 2 * h" by (cases s) (simp_all add: p_def h_def)
    have hn: "h < n" using B mv mpos by linarith
    have "h < 2 ^ 50" using hn n by linarith
    then have "s - 1 < 50" by (simp only: h_def power_strict_increasing_iff)
    then have s53: "s \<le> 53" by simp
    have U: "2 * T \<le> 2 * m + p" unfolding T_def p_def by (rule round_half_even_upper)
    have L: "(m div p) * p \<le> T" unfolding T_def p_def by (rule round_half_even_lower)
    show ?thesis
    proof
      assume "above_threshold c n"
      then have gt: "T < c * 9007199254740992" by (simp only: ab T)
      show "4 * n < 5 * c"
      proof (rule ccontr)
        assume "\<not> 4 * n < 5 * c"
        then have "c * 9007199254740992 \<le> m" using mv by linarith
        moreover have "(2::nat) ^ 53 = 2 ^ (53 - s) * 2 ^ s"
          using s53 by (simp only: power_add[symmetric]) simp
        then have PP: "(9007199254740992::nat) = 2 ^ (53 - s) * p"
          by (simp only: pow53 p_def)
        ultimately have "(c * 2 ^ (53 - s)) * p \<le> m" by (simp only: mult.assoc)
        moreover have "0 < p" by (simp add: p_def)
        ultimately have "c * 2 ^ (53 - s) \<le> m div p"
          by (simp only: less_eq_div_iff_mult_less_eq)
        then have "(c * 2 ^ (53 - s)) * p \<le> (m div p) * p" by (rule mult_le_mono1)
        then have "c * 9007199254740992 \<le> (m div p) * p" by (simp only: PP mult.assoc)
        with L gt show False by linarith
      qed
    next
      assume lt: "4 * n < 5 * c"
      have "T < c * 9007199254740992" using U ph hn lt nv mv by linarith
      then show "above_threshold c n" by (simp only: ab T)
    qed
  qed
qed

section \<open>Properties of the numeric coercion\<close>

lemma Value_set_value [simp]: "Value (set_value r v) = v"
  by (simp add: set_value_def)

lemma set_value_set_value [simp]: "set_value (set_value r a) b = set_value r b"
  by (simp add: set_value_def)

lemma lrows_clean_column: "lrows (clean_column e t) = map (text_row e) (lrows t)"
  by (simp add: clean_column_def text_row_def)

lemma clean_column_eq:
  "clean_column e t = \<lparr>lrows = map (text_row e) (lrows t), value_dtype = value_dtype t\<rparr>"
  by (cases t) (simp add: clean_column_def text_row_def)

lemma numeric_values_clean_column:
  "numeric_values e (clean_column e t) =
     map (\<lambda>r. numeric_value e (clean_text e (Value r))) (lrows t)"
  by (simp add: numeric_values_def lrows_clean_column text_row_def astype_str_def)

lemma numeric_value_Null: "numeric_value e s = Null \<longleftrightarrow> to_numeric e s = None"
  by (simp add: numeric_value_def split: option.splits)

lemma notna_sum_numeric:
  "notna_sum (map (\<lambda>r. numeric_value e (clean_text e (Value r))) rs) =
     length (filter (parseable e) rs)"
  by (induction rs) (simp_all add: notna_sum_def parseable_def numeric_value_Null)

lemma committed_rows:
  "filter (\<lambda>r. Value r \<noteq> Null)
     (map (\<lambda>(r, v). set_value r v)
        (zip (map (text_row e) rs) (map (\<lambda>r. numeric_value e (clean_text e (Value r))) rs))) =
   map (numeric_row e) (filter (parseable e) rs)"
  by (induction rs)
     (simp_all add: text_row_def numeric_row_def parseable_def numeric_value_Null)

lemma commit_eq:
  "dropna (assign_values (clean_column e t) (numeric_values e (clean_column e t))) =
     \<lparr>lrows = map (numeric_row e) (filter (parseable e) (lrows t)), value_dtype = numeric\<rparr>"
  by (simp add: dropna_def assign_values_def numeric_values_clean_column lrows_clean_column
      committed_rows)

lemma coerce_always_eq:
  "coerce_always e t =
     \<lparr>lrows = map (numeric_row e) (filter (parseable e) (lrows t)), value_dtype = numeric\<rparr>"
  by (simp add: coerce_always_def Let_def commit_eq)

lemma coerce_gated_object:
  assumes "value_dtype t = object"
  shows "coerce_gated e t =
     (if above_threshold (length (filter (parseable e) (lrows t))) (length (lrows t))
      then \<lparr>lrows = map (numeric_row e) (filter (parseable e) (lrows t)), value_dtype = numeric\<rparr>
      else \<lparr>lrows = map (text_row e) (lrows t), value_dtype = object\<rparr>)"
proof -
  have "coerce_gated e t =
     (if above_threshold (length (filter (parseable e) (lrows t))) (length (lrows t))
      then \<lparr>lrows = map (numeric_row e) (filter (parseable e) (lrows t)), value_dtype = numeric\<rparr>
      else clean_column e t)"
    using assms
    by (simp add: coerce_gated_def Let_def commit_eq [unfolded numeric_values_clean_column]
        numeric_values_clean_column notna_sum_numeric)
  then show ?thesis using assms by (simp add: clean_column_eq)
qed

lemma decimal_env_simps [simp]:
  "to_numeric decimal_env = decimal_numeral"
  "writable decimal_env = (\<lambda>p. True)"
  "orderable decimal_env = (\<lambda>cs. list_all is_text cs \<or> list_all (\<lambda>c. \<not> is_text c) cs)"
  by (simp_all add: decimal_env_def)

lemma clean_text_Str: "clean_text e (Str s) = str_replace_comma s"
  by (simp add: clean_text_def astype_str_def)

text \<open>
  C1. A value column stored as \<^verbatim>\<open>object\<close> is coerced exactly when the rows that parse,
  after comma-stripping, are strictly more than four fifths of all rows. Then the
  column holds the parsed numbers and the rows that do not parse are gone. At four
  fifths or below the column holds the comma-stripped texts and all rows stay. 80
  parseable values of 100 do not commit, 81 of 100 do. (The product with the double
  \<^verbatim>\<open>0.8\<close> is compared exactly for all columns of fewer than \<open>2 ^ 50\<close> rows.)
\<close>

theorem coerce_gated_threshold:
  assumes "value_dtype t = object" and "length (lrows t) < 2 ^ 50"
  shows "(4 * length (lrows t) < 5 * length (filter (parseable e) (lrows t)) \<longrightarrow>
            coerce_gated e t =
              \<lparr>lrows = map (numeric_row e) (filter (parseable e) (lrows t)),
               value_dtype = numeric\<rparr>) \<and>
         (5 * length (filter (parseable e) (lrows t)) \<le> 4 * length (lrows t) \<longrightarrow>
            coerce_gated e t =
              \<lparr>lrows = map (text_row e) (lrows t), value_dtype = object\<rparr>) \<and>
         \<not> above_threshold 80 100 \<and> above_threshold 81 100"
proof -
  have "above_threshold (length (filter (parseable e) (lrows t))) (length (lrows t)) \<longleftrightarrow>
        4 * length (lrows t) < 5 * length (filter (parseable e) (lrows t))"
    using assms(2) by (rule above_threshold_exact)
  moreover have "\<not> above_threshold 80 100" by (subst above_threshold_exact) simp_all
  moreover have "above_threshold 81 100" by (subst above_threshold_exact) simp_all
  ultimately show ?thesis using assms(1) by (simp add: coerce_gated_object)
qed

theorem coerce_gated_threshold_witness:
  "value_dtype (text_column [''1'', ''2'', ''3'', ''4'', ''halted'']) = object \<and>
   length (lrows (text_column [''1'', ''2'', ''3'', ''4'', ''halted''])) < 2 ^ 50 \<and>
   coerce_gated decimal_env (text_column [''1'', ''2'', ''3'', ''4'', ''halted'']) =
     text_column [''1'', ''2'', ''3'', ''4'', ''halted''] \<and>
   lrows (coerce_gated decimal_env (text_column [''1,000'', ''2'', ''3'', ''4'', ''5'', ''halted''])) =
     [\<lparr>idx = 0, Date = Str ''2020Q1'', Stock = Str ''1101 X'', Value = Val 1000\<rparr>,
      \<lparr>idx = 1, Date = Str ''2020Q1'', Stock = Str ''1101 X'', Value = Val 2\<rparr>,
      \<lparr>idx = 2, Date = Str ''2020Q1'', Stock = Str ''1101 X'', Value = Val 3\<rparr>,
      \<lparr>idx = 3, Date = Str ''2020Q1'', Stock = Str ''1101 X'', Value = Val 4\<rparr>,
      \<lparr>idx = 4, Date = Str ''2020Q1'', Stock = Str ''1101 X'', Value = Val 5\<rparr>]"
  using coerce_gated_threshold [of "text_column [''1'', ''2'', ''3'', ''4'', ''halted'']" decimal_env]
    coerce_gated_threshold [of "text_column [''1,000'', ''2'', ''3'', ''4'', ''5'', ''halted'']" decimal_env]
  by (simp add: text_column_def number_rows_def parseable_def clean_text_Str
      str_replace_comma_def decimal_numeral_def digit_value_def text_row_def numeric_row_def
      set_value_def numeric_value_def upt_rec)

lemma above_threshold_1_1: "above_threshold 1 1"
  by (subst above_threshold_exact) simp_all

lemma comma_not_in_clean_text: "CHR '','' \<notin> set (clean_text e c)"
  by (simp add: clean_text_def str_replace_comma_def)

lemma sentinel_filter_frame:
  "sentinel_filter t =
     \<lparr>lrows = filter (\<lambda>r. \<not> is_sentinel (Value r)) (lrows t), value_dtype = value_dtype t\<rparr>"
  by (cases t) (simp add: sentinel_filter_eq)

text \<open>
  C6. In the book-value fix the coercion has no gate: the result is always the parsed
  numbers of the rows that parse after comma-stripping, and every other row is gone,
  whatever the share of rows that parse. With one value of three parsing, the fix keeps
  that one row, where the gated coercion of the general pipeline keeps all three as
  text.
\<close>

theorem book_value_coercion_unconditional:
  "coerce_always e t =
     \<lparr>lrows = map (numeric_row e) (filter (parseable e) (lrows t)), value_dtype = numeric\<rparr> \<and>
   book_value_long e df =
     (case fix_header df of
        Inl err \<Rightarrow> Inl err
      | Inr d \<Rightarrow>
          if columns d = [] then Inl IndexError
          else
            (case melt d ''BookValue'' of
               Inl err \<Rightarrow> Inl err
             | Inr m \<Rightarrow>
                 Inr \<lparr>lrows = map (numeric_row e)
                        (filter (parseable e)
                          (filter (\<lambda>r. \<not> is_sentinel (Value r)) (lrows m))),
                      value_dtype = numeric\<rparr>)) \<and>
   lrows (coerce_always decimal_env (text_column [''7'', ''halted'', ''pending''])) =
     [\<lparr>idx = 0, Date = Str ''2020Q1'', Stock = Str ''1101 X'', Value = Val 7\<rparr>] \<and>
   lrows (coerce_gated decimal_env (text_column [''7'', ''halted'', ''pending''])) =
     lrows (text_column [''7'', ''halted'', ''pending''])"
proof -
  have a: "coerce_always e t =
     \<lparr>lrows = map (numeric_row e) (filter (parseable e) (lrows t)), value_dtype = numeric\<rparr>"
    by (rule coerce_always_eq)
  have b: "book_value_long e df =
     (case fix_header df of
        Inl err \<Rightarrow> Inl err
      | Inr d \<Rightarrow>
          if columns d = [] then Inl IndexError
          else
            (case melt d ''BookValue'' of
               Inl err \<Rightarrow> Inl err
             | Inr m \<Rightarrow>
                 Inr \<lparr>lrows = map (numeric_row e)
                        (filter (parseable e)
                          (filter (\<lambda>r. \<not> is_sentinel (Value r)) (lrows m))),
                      value_dtype = numeric\<rparr>))"
    by (simp add: book_value_long_def coerce_always_eq lrows_sentinel_filter
        split: sum.splits)
  have c: "lrows (coerce_always decimal_env (text_column [''7'', ''halted'', ''pending''])) =
     [\<lparr>idx = 0, Date = Str ''2020Q1'', Stock = Str ''1101 X'', Value = Val 7\<rparr>]"
    by (simp add: coerce_always_eq text_column_def number_rows_def parseable_def clean_text_Str
      str_replace_comma_def decimal_numeral_def digit_value_def numeric_row_def
      set_value_def numeric_value_def upt_rec)
  have d: "lrows (coerce_gated decimal_env (text_column [''7'', ''halted'', ''pending''])) =
     lrows (text_column [''7'', ''halted'', ''pending''])"
    by (simp add: above_threshold_exact coerce_gated_object text_column_def number_rows_def
      parseable_def clean_text_Str str_replace_comma_def decimal_numeral_def digit_value_def text_row_def
      set_value_def upt_rec)
  from a b c d show ?thesis by (intro conjI)
qed

text \<open>
  C8. The commas are stripped from every value before it is parsed: the cleaned text of a
  cell holds no comma, and for a text cell it is the text without its commas. The text
  \<^verbatim>\<open>63,292,145\<close> is parsed as \<^verbatim>\<open>63292145\<close> and, \<^verbatim>\<open>to_numeric\<close> reading that numeral as its
  value, coerces to the number 63292145, in the gated and in the unconditional
  coercion.
\<close>

theorem comma_separated_number:
  fixes e :: "nat env"
  assumes "to_numeric e ''63292145'' = Some 63292145"
  shows "CHR '','' \<notin> set (clean_text e c) \<and>
         clean_text e (Str s) = filter (\<lambda>x. x \<noteq> CHR '','') s \<and>
         clean_text e (Str ''63,292,145'') = ''63292145'' \<and>
         coerce_gated e \<lparr>lrows = [set_value r (Str ''63,292,145'')], value_dtype = object\<rparr> =
           \<lparr>lrows = [set_value r (Val 63292145)], value_dtype = numeric\<rparr> \<and>
         coerce_always e \<lparr>lrows = [set_value r (Str ''63,292,145'')], value_dtype = object\<rparr> =
           \<lparr>lrows = [set_value r (Val 63292145)], value_dtype = numeric\<rparr>"
  using assms above_threshold_1_1
  by (simp add: comma_not_in_clean_text clean_text_Str str_replace_comma_def
      coerce_gated_object coerce_always_eq parseable_def numeric_row_def numeric_value_def)

theorem comma_separated_number_witness:
  "to_numeric decimal_env ''63292145'' = Some 63292145 \<and>
   coerce_gated decimal_env (text_column [''63,292,145'']) =
     \<lparr>lrows = [\<lparr>idx = 0, Date = Str ''2020Q1'', Stock = Str ''1101 X'',
                 Value = Val 63292145\<rparr>],
      value_dtype = numeric\<rparr>"
  using comma_separated_number [of decimal_env Null "[]"
      "\<lparr>idx = 0, Date = Str ''2020Q1'', Stock = Str ''1101 X'', Value = Null\<rparr>"]
  by (simp add: text_column_def number_rows_def set_value_def decimal_numeral_def
      digit_value_def)

section \<open>Properties of the unpivot\<close>














section \<open>Properties of the quarterly fix\<close>





text \<open>
  C10. The announcement-date fix applies no numeric coercion: when the workbook loads,
  the unpivot succeeds and the file can be written, the file written holds exactly the
  unpivoted records whose value is not null, not \<^verbatim>\<open>-\<close> and not empty, each with its
  value unchanged. Nothing in it depends on \<^verbatim>\<open>to_numeric\<close>.
\<close>

theorem announcement_dates_unchanged:
  assumes "read_excel fs ''announcemnet date.xlsx'' = Inr df"
    and "fix_header df = Inr d" and "columns d \<noteq> []"
    and "melt d ''AnnouncementDate'' = Inr m"
    and "writable e ''announcement_dates_fixed.csv''"
  shows "announcement_long df =
           Inr \<lparr>lrows = filter (\<lambda>r. \<not> is_sentinel (Value r)) (lrows m),
                value_dtype = value_dtype m\<rparr> \<and>
         fix_announcement_dates e fs ''announcement_dates_fixed.csv'' =
           Some (Csv ''AnnouncementDate''
                  (filter (\<lambda>(d, s, v). \<not> is_sentinel v) (csv_rows m)))"
  using assms
  by (simp add: announcement_long_def fix_announcement_dates_def to_csv_def csv_rows_def
      sentinel_filter_frame filter_map comp_def split_beta)

theorem announcement_dates_unchanged_witness:
  "read_excel quarterly_fs ''announcemnet date.xlsx'' = Inr quarterly_table \<and>
   writable decimal_env ''announcement_dates_fixed.csv'' \<and>
   fix_announcement_dates decimal_env quarterly_fs ''announcement_dates_fixed.csv'' =
     Some (Csv ''AnnouncementDate''
            [(Str ''2020Q1'', Str ''1101 X'', Str ''2020/05/15''),
             (Str ''2020Q2'', Str ''1101 X'', Str ''2020/08/14''),
             (Str ''2020Q2'', Str ''1102 Y'', Str ''2020/08/10'')])"
proof -
  let ?d = "\<lparr>columns = [Str ''Period'', Str ''1101 X'', Str ''1102 Y''],
          dtypes = [object, object, object],
          index = [0, 1],
          data = [[Str ''2020Q1'', Str ''2020/05/15'', Str ''-''],
                  [Str ''2020Q2'', Str ''2020/08/14'', Str ''2020/08/10'']]\<rparr> :: nat frame"
  let ?m = "\<lparr>lrows =
            [\<lparr>idx = 0, Date = Str ''2020Q1'', Stock = Str ''1101 X'', Value = Str ''2020/05/15''\<rparr>,
             \<lparr>idx = 1, Date = Str ''2020Q2'', Stock = Str ''1101 X'', Value = Str ''2020/08/14''\<rparr>,
             \<lparr>idx = 2, Date = Str ''2020Q1'', Stock = Str ''1102 Y'', Value = Str ''-''\<rparr>,
             \<lparr>idx = 3, Date = Str ''2020Q2'', Stock = Str ''1102 Y'', Value = Str ''2020/08/10''\<rparr>],
          value_dtype = object\<rparr> :: nat long_frame"
  have r: "read_excel quarterly_fs ''announcemnet date.xlsx'' = Inr quarterly_table"
    by (simp add: read_excel_def quarterly_fs_def)
  have h: "fix_header quarterly_table = Inr ?d"
    by (simp add: fix_header_def quarterly_table_def upt_rec)
  have c: "columns ?d \<noteq> []" by simp
  have m: "melt ?d ''AnnouncementDate'' = Inr ?m"
    by (simp add: melt_def melt_cells_def melt_column_def number_rows_def upt_rec)
  have w: "writable decimal_env ''announcement_dates_fixed.csv''" by simp
  from announcement_dates_unchanged [OF r h c m w] r w show ?thesis
    by (simp add: csv_rows_def is_sentinel_def)
qed

section \<open>Properties of the general pipeline\<close>

lemma length_reset_index: "length (lrows (reset_index t)) = length (lrows t)"
  by (simp add: reset_index_def)

lemma length_filter_split:
  "length xs = length (filter P xs) + length (filter (\<lambda>x. \<not> P x) xs)"
  by (induction xs) simp_all

lemma convert_stock_file_to_long_Inr:
  assumes "fst (convert_stock_file_to_long e fs file_path sfx vname) = Inr cv"
  shows "\<exists>df m. read_excel fs file_path = Inr df \<and> melt df vname = Inr m \<and>
           long_df cv = reset_index (coerce_gated e (sentinel_filter m)) \<and>
           csv_filename cv = csv_name file_path sfx \<and>
           removed_rows cv = int (length (lrows m)) - int (length (lrows (long_df cv))) \<and>
           final_rows cv = length (lrows (long_df cv))"
  using assms
  by (auto simp: convert_stock_file_to_long_def Let_def split: sum.splits if_splits)

lemma melt_volume:
  "vname \<noteq> ''Date'' \<Longrightarrow> vname \<noteq> ''1101 X'' \<Longrightarrow>
   melt volume_table vname =
     Inr \<lparr>lrows =
        [\<lparr>idx = 0, Date = Str ''2020-01-02'', Stock = Str ''1101 X'', Value = Str ''1,000''\<rparr>,
         \<lparr>idx = 1, Date = Str ''2020-01-03'', Stock = Str ''1101 X'', Value = Str ''2''\<rparr>,
         \<lparr>idx = 2, Date = Str ''2020-01-06'', Stock = Str ''1101 X'', Value = Str ''3''\<rparr>,
         \<lparr>idx = 3, Date = Str ''2020-01-07'', Stock = Str ''1101 X'', Value = Str ''4''\<rparr>,
         \<lparr>idx = 4, Date = Str ''2020-01-08'', Stock = Str ''1101 X'', Value = Str ''5''\<rparr>,
         \<lparr>idx = 5, Date = Str ''2020-01-09'', Stock = Str ''1101 X'', Value = Str ''halted''\<rparr>],
      value_dtype = object\<rparr>"
  by (simp add: volume_table_def melt_def melt_cells_def melt_column_def number_rows_def upt_rec)

lemma clean_volume:
  "vname \<noteq> ''Date'' \<Longrightarrow> vname \<noteq> ''1101 X'' \<Longrightarrow>
   map_sum id (\<lambda>m. reset_index (coerce_gated decimal_env (sentinel_filter m)))
     (melt volume_table vname) = Inr volume_long"
  by (simp add: melt_volume sentinel_filter_frame is_sentinel_def coerce_gated_object
      above_threshold_exact parseable_def clean_text_Str str_replace_comma_def
      decimal_numeral_def digit_value_def numeric_row_def numeric_value_def set_value_def
      reset_index_def volume_long_def upt_rec)


lemma convert_volume:
  assumes "fs p = Some (Workbook volume_table)" and "vname \<noteq> ''Date''"
    and "vname \<noteq> ''1101 X''"
  shows "convert_stock_file_to_long decimal_env fs p sfx vname =
     (Inr \<lparr>long_df = volume_long, csv_filename = csv_name p sfx, removed_rows = 1,
           final_rows = 5\<rparr>,
      fs(csv_name p sfx \<mapsto> Csv vname (csv_rows volume_long)))"
proof -
  have r: "read_excel fs p = Inr volume_table" using assms(1) by (simp add: read_excel_def)
  have c: "columns volume_table \<noteq> []" by (simp add: volume_table_def)
  have o1: "min_max_ok decimal_env (hd (dtypes volume_table))
      (map (\<lambda>r. r ! 0) (data volume_table))"
    by (simp add: min_max_ok_def volume_table_def is_text_def)
  have o2: "min_max_ok decimal_env (hd (dtypes volume_table)) (map Date (lrows volume_long))"
    by (simp add: min_max_ok_def volume_long_def is_text_def)
  obtain m where m: "melt volume_table vname = Inr m"
    and l: "length (lrows m) = 6"
    and k: "reset_index (coerce_gated decimal_env (sentinel_filter m)) = volume_long"
    using clean_volume [OF assms(2,3)] melt_volume [OF assms(2,3)] by simp
  have n: "length (lrows volume_long) = 5" by (simp add: volume_long_def)
  show ?thesis
    by (simp add: convert_stock_file_to_long_def r c o1 o2 m l k n Let_def to_csv_def)
qed

text \<open>
  C5, as stated, fails: the count the pipeline prints is taken after the numeric
  coercion. On the six-day workbook no value is a sentinel, the coercion commits and
  drops the one value that does not parse, and the pipeline reports one removed row
  where the sentinel filter removed none.
\<close>

theorem removed_rows_counts_coercion_counterexample:
  "map_sum id removed_rows
     (fst (convert_stock_file_to_long decimal_env volume_fs ''tv.xlsx'' ''_volume'' ''Volume'')) =
     Inr 1 \<and>
   map_sum id (\<lambda>m. int (length (lrows m)) - int (length (lrows (sentinel_filter m))))
     (melt volume_table ''Volume'') = Inr 0"
  by (simp add: convert_volume volume_fs_def melt_volume sentinel_filter_frame is_sentinel_def)

text \<open>
  C5, amended. The removed-row count of a conversion is the number of unpivoted rows
  minus the number of rows of the final table: the rows the sentinel filter removed
  plus the rows the numeric coercion dropped (the line reads
  \<^verbatim>\<open>Removed ... empty/invalid rows\<close>).
\<close>

theorem removed_rows_total:
  assumes "fst (convert_stock_file_to_long e fs file_path sfx vname) = Inr cv"
  shows "\<exists>df m. read_excel fs file_path = Inr df \<and> melt df vname = Inr m \<and>
           long_df cv = reset_index (coerce_gated e (sentinel_filter m)) \<and>
           removed_rows cv = int (length (lrows m)) - int (length (lrows (long_df cv))) \<and>
           removed_rows cv =
             int (length (filter (\<lambda>r. is_sentinel (Value r)) (lrows m))) +
             (int (length (lrows (sentinel_filter m))) -
              int (length (lrows (coerce_gated e (sentinel_filter m)))))"
proof -
  from convert_stock_file_to_long_Inr [OF assms] obtain df m where
    a: "read_excel fs file_path = Inr df" "melt df vname = Inr m"
       "long_df cv = reset_index (coerce_gated e (sentinel_filter m))"
       "removed_rows cv = int (length (lrows m)) - int (length (lrows (long_df cv)))"
    by blast
  have "length (lrows m) =
      length (filter (\<lambda>r. is_sentinel (Value r)) (lrows m)) + length (lrows (sentinel_filter m))"
    using length_filter_split [of "lrows m" "\<lambda>r. is_sentinel (Value r)"]
    by (simp add: lrows_sentinel_filter)
  with a show ?thesis by (simp add: length_reset_index)
qed

theorem removed_rows_total_witness:
  "fst (convert_stock_file_to_long decimal_env volume_fs ''tv.xlsx'' ''_volume'' ''Volume'') =
     Inr \<lparr>long_df = volume_long, csv_filename = ''tv_volume_long_format.csv'',
          removed_rows = 1, final_rows = 5\<rparr> \<and>
   read_excel volume_fs ''tv.xlsx'' = Inr volume_table \<and>
   (1::int) = int 6 - int (length (lrows volume_long))"
proof -
  have c: "fst (convert_stock_file_to_long decimal_env volume_fs ''tv.xlsx'' ''_volume'' ''Volume'') =
     Inr \<lparr>long_df = volume_long, csv_filename = ''tv_volume_long_format.csv'',
          removed_rows = 1, final_rows = 5\<rparr>"
    by (simp add: convert_volume volume_fs_def csv_name_def basename_def splitext_root_def
        rfind_def Let_def)
  have r: "read_excel volume_fs ''tv.xlsx'' = Inr volume_table"
    by (simp add: read_excel_def volume_fs_def)
  have n: "length (lrows volume_long) = 5" by (simp add: volume_long_def)
  from removed_rows_total [OF c] c r n show ?thesis by simp
qed

section \<open>Properties of the batch driver\<close>

lemma convert_fs:
  "snd (convert_stock_file_to_long e fs p sfx vname) = fs \<or>
   (\<exists>x. snd (convert_stock_file_to_long e fs p sfx vname) = fs(csv_name p sfx \<mapsto> x))"
  by (auto simp: convert_stock_file_to_long_def to_csv_def Let_def split: sum.splits)

lemma process_config_fs:
  "snd (process_config e fs c) = fs \<or>
   (\<exists>x. snd (process_config e fs c) = fs(csv_name (file_name c) (suffix c) \<mapsto> x))"
proof (cases "path_exists fs (file_name c)")
  case False
  then show ?thesis by (simp add: process_config_def)
next
  case True
  obtain res fs' where
    r: "convert_stock_file_to_long e fs (file_name c) (suffix c) (value_name c) = (res, fs')"
    by (cases "convert_stock_file_to_long e fs (file_name c) (suffix c) (value_name c)")
  with True have "snd (process_config e fs c) = fs'"
    by (cases res) (simp_all add: process_config_def)
  with convert_fs [of e fs "file_name c" "suffix c" "value_name c"] r show ?thesis by simp
qed

lemma process_config_entry:
  "fst (process_config e fs c) =
     (if path_exists fs (file_name c) then
        (case fst (convert_stock_file_to_long e fs (file_name c) (suffix c) (value_name c)) of
           Inl err \<Rightarrow> failed_entry c err
         | Inr cv \<Rightarrow> converted_entry c cv)
      else missing_entry c)"
  by (cases "convert_stock_file_to_long e fs (file_name c) (suffix c) (value_name c)")
     (simp add: process_config_def missing_entry_def failed_entry_def converted_entry_def
       split: sum.splits)

lemma fst_process_all_Cons:
  "fst (process_all e fs (c # cs)) =
     fst (process_config e fs c) # fst (process_all e (snd (process_config e fs c)) cs)"
  by (simp add: split_beta)

lemma snd_process_all_Cons:
  "snd (process_all e fs (c # cs)) = snd (process_all e (snd (process_config e fs c)) cs)"
  by (simp add: split_beta)

lemma length_process_all: "length (fst (process_all e fs cs)) = length cs"
  by (induction cs arbitrary: fs) (simp_all add: split_beta)

lemma process_all_nth:
  "i < length cs \<Longrightarrow>
   fst (process_all e fs cs) ! i =
     fst (process_config e (snd (process_all e fs (take i cs))) (cs ! i))"
proof (induction cs arbitrary: fs i)
  case Nil
  then show ?case by simp
next
  case (Cons c cs)
  show ?case
  proof (cases i)
    case 0
    then show ?thesis by (simp add: split_beta)
  next
    case (Suc k)
    with Cons.prems have "k < length cs" by simp
    from Cons.IH [OF this] Suc show ?thesis
      by (simp add: fst_process_all_Cons snd_process_all_Cons del: process_all.simps)
  qed
qed

lemma process_all_keeps_other:
  "\<forall>c\<in>set cs. p \<noteq> csv_name (file_name c) (suffix c) \<Longrightarrow>
   snd (process_all e fs cs) p = fs p"
proof (induction cs arbitrary: fs)
  case Nil
  then show ?case by simp
next
  case (Cons c cs)
  then have "snd (process_all e (snd (process_config e fs c)) cs) p =
      snd (process_config e fs c) p"
    by simp
  moreover have "snd (process_config e fs c) p = fs p"
    using process_config_fs [of e fs c] Cons.prems by auto
  ultimately show ?case by (simp add: snd_process_all_Cons del: process_all.simps)
qed

lemma process_all_keeps_files:
  "fs p \<noteq> None \<Longrightarrow> snd (process_all e fs cs) p \<noteq> None"
proof (induction cs arbitrary: fs)
  case Nil
  then show ?case by simp
next
  case (Cons c cs)
  have "snd (process_config e fs c) p \<noteq> None"
    using process_config_fs [of e fs c] Cons.prems by auto
  from Cons.IH [of "snd (process_config e fs c)", OF this] show ?case
    by (simp add: snd_process_all_Cons del: process_all.simps)
qed

lemma failed_rows:
  "r \<in> set (fst (process_all e fs cs)) \<Longrightarrow> \<not> success r \<Longrightarrow>
   rows r = 0 \<and> output_file r = None"
proof (induction cs arbitrary: fs)
  case Nil
  then show ?case by simp
next
  case (Cons c cs)
  from Cons.prems(1) have
    "r = fst (process_config e fs c) \<or>
     r \<in> set (fst (process_all e (snd (process_config e fs c)) cs))"
    by (simp add: fst_process_all_Cons del: process_all.simps)
  then show ?case
  proof
    assume "r = fst (process_config e fs c)"
    with Cons.prems(2) show ?thesis
      by (auto simp: process_config_entry missing_entry_def failed_entry_def
          converted_entry_def split: if_splits sum.splits)
  next
    assume "r \<in> set (fst (process_all e (snd (process_config e fs c)) cs))"
    from Cons.IH [OF this Cons.prems(2)] show ?thesis .
  qed
qed


lemma convert_all_eq:
  "fst (convert_all e fs cs) =
     (fst (process_all e fs cs), summarize cs (fst (process_all e fs cs)))"
  by (simp add: convert_all_def split_beta)

lemma csv_names:
  "csv_name ''stock price.xlsx'' ''_prices'' = ''stock price_prices_long_format.csv''"
  "csv_name ''tv.xlsx'' ''_volume'' = ''tv_volume_long_format.csv''"
  "csv_name ''mkt cap.xlsx'' ''_market_cap'' = ''mkt cap_market_cap_long_format.csv''"
  "csv_name ''book value.xlsx'' ''_book_value'' = ''book value_book_value_long_format.csv''"
  "csv_name ''announcemnet date.xlsx'' ''_announcement'' =
     ''announcemnet date_announcement_long_format.csv''"
  by (simp_all add: csv_name_def basename_def splitext_root_def rfind_def Let_def)

lemma files_config_no_clash:
  "\<forall>c\<in>set files_config. \<forall>c'\<in>set files_config.
     file_name c \<noteq> csv_name (file_name c') (suffix c')"
  by (simp add: files_config_def csv_names)

lemma batch_results:
  "map success (fst (process_all decimal_env batch_fs files_config)) =
     [True, True, True, False, False] \<and>
   map rows (fst (process_all decimal_env batch_fs files_config)) = [5, 5, 5, 0, 0]"
  by (simp add: files_config_def batch_fs_def process_config_def path_exists_def
      convert_volume csv_names split_beta volume_long_def)

text \<open>
  C4. The batch driver appends one entry for every configured file, in order, whatever
  happens to the files before it. A file that does not exist gets a failure entry with
  zero rows; a file that exists gets the entry of its conversion, run on the files as
  the earlier conversions left them: a failure entry with zero rows that carries the
  error when the conversion raised, a success entry with its row count when it
  returned. The report counts the successes out of the number of configured files and
  sums the rows of the successes. (No configured file is the output of a conversion, as
  in the configured list.) With two of the five configured files missing and the other
  three converting, the report reads 3 of 5.
\<close>

theorem batch_isolates_failures:
  assumes "\<forall>c\<in>set cs. \<forall>c'\<in>set cs. file_name c \<noteq> csv_name (file_name c') (suffix c')"
  shows
    "length (fst (process_all e fs cs)) = length cs \<and>
     (\<forall>i<length cs.
        (fs (file_name (cs ! i)) = None \<longrightarrow>
           fst (process_all e fs cs) ! i = missing_entry (cs ! i)) \<and>
        (fs (file_name (cs ! i)) \<noteq> None \<longrightarrow>
           fst (process_all e fs cs) ! i =
             (case fst (convert_stock_file_to_long e (snd (process_all e fs (take i cs)))
                     (file_name (cs ! i)) (suffix (cs ! i)) (value_name (cs ! i))) of
                Inl err \<Rightarrow> failed_entry (cs ! i) err
              | Inr cv \<Rightarrow> converted_entry (cs ! i) cv))) \<and>
     (\<forall>r\<in>set (fst (process_all e fs cs)). \<not> success r \<longrightarrow> rows r = 0 \<and> output_file r = None) \<and>
     fst (convert_all e fs cs) =
       (fst (process_all e fs cs),
        \<lparr>successful = length (filter success (fst (process_all e fs cs))),
         total_files = length cs,
         total_rows = sum_list (map rows (filter success (fst (process_all e fs cs))))\<rparr>)"
proof -
  have entry: "(fs (file_name (cs ! i)) = None \<longrightarrow>
           fst (process_all e fs cs) ! i = missing_entry (cs ! i)) \<and>
        (fs (file_name (cs ! i)) \<noteq> None \<longrightarrow>
           fst (process_all e fs cs) ! i =
             (case fst (convert_stock_file_to_long e (snd (process_all e fs (take i cs)))
                     (file_name (cs ! i)) (suffix (cs ! i)) (value_name (cs ! i))) of
                Inl err \<Rightarrow> failed_entry (cs ! i) err
              | Inr cv \<Rightarrow> converted_entry (cs ! i) cv))"
    if i: "i < length cs" for i
  proof -
    let ?p = "file_name (cs ! i)"
    let ?fsi = "snd (process_all e fs (take i cs))"
    have r: "fst (process_all e fs cs) ! i = fst (process_config e ?fsi (cs ! i))"
      using i by (rule process_all_nth)
    have "cs ! i \<in> set cs" using i by simp
    moreover have "set (take i cs) \<subseteq> set cs" by (rule set_take_subset)
    ultimately have "\<forall>c\<in>set (take i cs). ?p \<noteq> csv_name (file_name c) (suffix c)"
      using assms by blast
    then have same: "?fsi ?p = fs ?p" by (rule process_all_keeps_other)
    show ?thesis
    proof (cases "fs ?p = None")
      case True
      with same have "\<not> path_exists ?fsi ?p" by (simp add: path_exists_def)
      with True r show ?thesis by (simp add: process_config_entry)
    next
      case False
      with same have "path_exists ?fsi ?p" by (simp add: path_exists_def)
      with False r show ?thesis by (auto simp: process_config_entry)
    qed
  qed
  have failed: "\<forall>r\<in>set (fst (process_all e fs cs)). \<not> success r \<longrightarrow> rows r = 0 \<and> output_file r = None"
    using failed_rows by blast
  show ?thesis
    using entry failed by (simp add: length_process_all convert_all_eq summarize_def)
qed

theorem batch_isolates_failures_witness:
  "snd (fst (convert_all_stock_files decimal_env batch_fs)) =
     \<lparr>successful = 3, total_files = 5, total_rows = 15\<rparr> \<and>
   map success (fst (fst (convert_all_stock_files decimal_env batch_fs))) =
     [True, True, True, False, False] \<and>
   map rows (fst (fst (convert_all_stock_files decimal_env batch_fs))) = [5, 5, 5, 0, 0] \<and>
   fst (fst (convert_all_stock_files decimal_env batch_fs)) ! 3 =
     \<lparr>original_file = ''book value.xlsx'', output_file = None,
      result_description = ''Book Value (Quarterly)'', rows = 0, success = False,
      error = None\<rparr>"
proof -
  note t = batch_isolates_failures [OF files_config_no_clash, of decimal_env batch_fs]
  have len: "length files_config = 5" by (simp add: files_config_def)
  from t have "fst (process_all decimal_env batch_fs files_config) ! 3 =
      missing_entry (files_config ! 3)"
    by (simp add: len) (simp add: files_config_def batch_fs_def)
  then have m: "fst (process_all decimal_env batch_fs files_config) ! 3 =
     \<lparr>original_file = ''book value.xlsx'', output_file = None,
      result_description = ''Book Value (Quarterly)'', rows = 0, success = False,
      error = None\<rparr>"
    by (simp add: missing_entry_def files_config_def)
  have f: "filter success (fst (process_all decimal_env batch_fs files_config)) =
      take 3 (fst (process_all decimal_env batch_fs files_config))"
    using batch_results length_process_all [of decimal_env batch_fs files_config] len
    by (auto simp: length_Suc_conv numeral_3_eq_3 numeral_eq_Suc)
  show ?thesis
    using t batch_results m f len
    by (auto simp: convert_all_stock_files_def take_map [symmetric] simp del: process_all.simps)
qed

end
